theory Spec2Isabelle
  imports Complex_Main
begin

section \<open>JavaScript numbers\<close>

text \<open>
  A JavaScript number is an IEEE 754 double: a finite value, one of the two infinities, or
  NaN.  A finite double is held as the real number it denotes; the sign of zero is not
  kept.  Negation and comparison are exact.  NaN compares false with everything.
\<close>

datatype jsnum = Fin real | PosInf | NegInf | NaN

fun js_neg :: "jsnum \<Rightarrow> jsnum" where
  "js_neg (Fin x) = Fin (- x)"
| "js_neg PosInf = NegInf"
| "js_neg NegInf = PosInf"
| "js_neg NaN = NaN"

text \<open>The infinity that an infinite product or quotient yields, by its sign.\<close>

definition signed_inf :: "bool \<Rightarrow> jsnum" where
  "signed_inf positive = (if positive then PosInf else NegInf)"

text \<open>
  \<open>js_add\<close> and \<open>js_mul\<close> are \<open>+\<close> and \<open>*\<close> where the finite result is exact: on integers
  below \<open>2^53\<close>, as the timestamps in milliseconds and the constants added to them are.
  NaN is contagious, and \<open>Infinity - Infinity\<close> and \<open>0 * Infinity\<close> are NaN.
\<close>

fun js_add :: "jsnum \<Rightarrow> jsnum \<Rightarrow> jsnum" where
  "js_add NaN _ = NaN"
| "js_add _ NaN = NaN"
| "js_add (Fin x) (Fin y) = Fin (x + y)"
| "js_add PosInf NegInf = NaN"
| "js_add NegInf PosInf = NaN"
| "js_add PosInf _ = PosInf"
| "js_add _ PosInf = PosInf"
| "js_add NegInf _ = NegInf"
| "js_add _ NegInf = NegInf"

fun js_mul :: "jsnum \<Rightarrow> jsnum \<Rightarrow> jsnum" where
  "js_mul NaN _ = NaN"
| "js_mul _ NaN = NaN"
| "js_mul (Fin x) (Fin y) = Fin (x * y)"
| "js_mul (Fin x) PosInf = (if x = 0 then NaN else signed_inf (0 < x))"
| "js_mul (Fin x) NegInf = (if x = 0 then NaN else signed_inf (x < 0))"
| "js_mul PosInf (Fin y) = (if y = 0 then NaN else signed_inf (0 < y))"
| "js_mul NegInf (Fin y) = (if y = 0 then NaN else signed_inf (y < 0))"
| "js_mul PosInf PosInf = PosInf"
| "js_mul NegInf NegInf = PosInf"
| "js_mul PosInf NegInf = NegInf"
| "js_mul NegInf PosInf = NegInf"

text \<open>\<open>a > b\<close> and \<open>a <= b\<close> on numbers; both are false when an operand is NaN.\<close>

fun js_gt :: "jsnum \<Rightarrow> jsnum \<Rightarrow> bool" where
  "js_gt NaN _ = False"
| "js_gt _ NaN = False"
| "js_gt (Fin x) (Fin y) = (y < x)"
| "js_gt PosInf PosInf = False"
| "js_gt PosInf _ = True"
| "js_gt NegInf _ = False"
| "js_gt (Fin x) PosInf = False"
| "js_gt (Fin x) NegInf = True"

fun js_le :: "jsnum \<Rightarrow> jsnum \<Rightarrow> bool" where
  "js_le NaN _ = False"
| "js_le _ NaN = False"
| "js_le a b = (\<not> js_gt a b)"

section \<open>Floating-point arithmetic\<close>

text \<open>
  Elsewhere the finite result of an operation is rounded, and \<open>Math.sin\<close>, \<open>Math.cos\<close>,
  \<open>Math.sqrt\<close>, \<open>Math.atan2\<close> and \<open>**\<close> are approximations that the platform chooses.  The
  distance function therefore computes on a floating-point unit that is a parameter:
  \<open>rnd\<close> rounds the exact result of \<open>+\<close>, \<open>-\<close>, \<open>*\<close>, \<open>/\<close> to a double, an infinity on overflow;
  the other fields are the library functions on finite arguments.  The operations on NaN
  and the infinities are those of IEEE 754, whatever the unit.  A theorem holds of every
  unit, or of every unit with the facts it names.
\<close>

record fpu =
  rnd :: "real \<Rightarrow> jsnum"
  m_sin :: "real \<Rightarrow> jsnum"
  m_cos :: "real \<Rightarrow> jsnum"
  m_sqrt :: "real \<Rightarrow> jsnum"
  m_atan2 :: "real \<Rightarrow> real \<Rightarrow> jsnum"
  m_pow2 :: "real \<Rightarrow> jsnum"

text \<open>\<open>Math.PI\<close> is the double nearest to \<open>pi\<close>.\<close>

definition MATH_PI :: real where
  "MATH_PI = 884279719003555 / 2 ^ 48"

definition fl_add :: "fpu \<Rightarrow> jsnum \<Rightarrow> jsnum \<Rightarrow> jsnum" where
  "fl_add M a b = (case (a, b) of (Fin x, Fin y) \<Rightarrow> rnd M (x + y) | _ \<Rightarrow> js_add a b)"

definition fl_sub :: "fpu \<Rightarrow> jsnum \<Rightarrow> jsnum \<Rightarrow> jsnum" where
  "fl_sub M a b = fl_add M a (js_neg b)"

definition fl_mul :: "fpu \<Rightarrow> jsnum \<Rightarrow> jsnum \<Rightarrow> jsnum" where
  "fl_mul M a b = (case (a, b) of (Fin x, Fin y) \<Rightarrow> rnd M (x * y) | _ \<Rightarrow> js_mul a b)"

fun fl_div :: "fpu \<Rightarrow> jsnum \<Rightarrow> jsnum \<Rightarrow> jsnum" where
  "fl_div M NaN _ = NaN"
| "fl_div M _ NaN = NaN"
| "fl_div M (Fin x) (Fin y) =
     (if y \<noteq> 0 then rnd M (x / y) else if x = 0 then NaN else signed_inf (0 < x))"
| "fl_div M (Fin x) _ = Fin 0"
| "fl_div M PosInf (Fin y) = signed_inf (0 \<le> y)"
| "fl_div M NegInf (Fin y) = signed_inf (y < 0)"
| "fl_div M _ _ = NaN"

fun fl_pow2 :: "fpu \<Rightarrow> jsnum \<Rightarrow> jsnum" where
  "fl_pow2 M (Fin x) = m_pow2 M x"
| "fl_pow2 M PosInf = PosInf"
| "fl_pow2 M NegInf = PosInf"
| "fl_pow2 M NaN = NaN"

fun fl_sin :: "fpu \<Rightarrow> jsnum \<Rightarrow> jsnum" where
  "fl_sin M (Fin x) = m_sin M x"
| "fl_sin M _ = NaN"

fun fl_cos :: "fpu \<Rightarrow> jsnum \<Rightarrow> jsnum" where
  "fl_cos M (Fin x) = m_cos M x"
| "fl_cos M _ = NaN"

fun fl_sqrt :: "fpu \<Rightarrow> jsnum \<Rightarrow> jsnum" where
  "fl_sqrt M (Fin x) = (if x < 0 then NaN else m_sqrt M x)"
| "fl_sqrt M PosInf = PosInf"
| "fl_sqrt M _ = NaN"

fun fl_atan2 :: "fpu \<Rightarrow> jsnum \<Rightarrow> jsnum \<Rightarrow> jsnum" where
  "fl_atan2 M NaN _ = NaN"
| "fl_atan2 M _ NaN = NaN"
| "fl_atan2 M (Fin y) (Fin x) = m_atan2 M y x"
| "fl_atan2 M (Fin y) PosInf = Fin 0"
| "fl_atan2 M (Fin y) NegInf = rnd M (if 0 \<le> y then pi else - pi)"
| "fl_atan2 M PosInf (Fin x) = rnd M (pi / 2)"
| "fl_atan2 M NegInf (Fin x) = rnd M (- (pi / 2))"
| "fl_atan2 M PosInf PosInf = rnd M (pi / 4)"
| "fl_atan2 M PosInf NegInf = rnd M (3 * pi / 4)"
| "fl_atan2 M NegInf PosInf = rnd M (- (pi / 4))"
| "fl_atan2 M NegInf NegInf = rnd M (- (3 * pi / 4))"

text \<open>
  The facts about doubles that the theorems on distances use.  Rounding keeps 0 and 1, is
  odd, and keeps a result of magnitude at most 1000 finite and within that bound (1000 is a
  double).  The sine of 0 is 0 and the sine is odd; a cosine is a finite number of magnitude
  at most 1; the square of 0 is 0 and squaring is even; the square roots of 0 and 1 are 0
  and 1; \<open>Math.atan2(0, 1)\<close> is 0.
\<close>

definition ieee_facts :: "fpu \<Rightarrow> bool" where
  "ieee_facts M =
     (rnd M 0 = Fin 0 \<and> rnd M 1 = Fin 1
      \<and> (\<forall>x. rnd M (- x) = js_neg (rnd M x))
      \<and> (\<forall>x. \<bar>x\<bar> \<le> 1000 \<longrightarrow> (\<exists>r. rnd M x = Fin r \<and> \<bar>r\<bar> \<le> 1000))
      \<and> m_sin M 0 = Fin 0
      \<and> (\<forall>x. m_sin M (- x) = js_neg (m_sin M x))
      \<and> (\<forall>x. \<exists>c. m_cos M x = Fin c \<and> \<bar>c\<bar> \<le> 1)
      \<and> m_pow2 M 0 = Fin 0
      \<and> (\<forall>x. m_pow2 M (- x) = m_pow2 M x)
      \<and> m_sqrt M 0 = Fin 0 \<and> m_sqrt M 1 = Fin 1
      \<and> m_atan2 M 0 1 = Fin 0)"

section \<open>Utils: the haversine distance\<close>

text \<open>
  \<^verbatim>\<open>const EARTH_RADIUS = 6371000;\<close>
  \<^verbatim>\<open>function toRad(v) { return (v * Math.PI) / 180; }\<close>
  \<^verbatim>\<open>function haversineDistance(lat1, lon1, lat2, lon2) { ... }\<close>
\<close>

definition EARTH_RADIUS :: jsnum where
  "EARTH_RADIUS = Fin 6371000"

definition toRad :: "fpu \<Rightarrow> jsnum \<Rightarrow> jsnum" where
  "toRad M v = fl_div M (fl_mul M v (Fin MATH_PI)) (Fin 180)"

definition haversineDistance :: "fpu \<Rightarrow> jsnum \<Rightarrow> jsnum \<Rightarrow> jsnum \<Rightarrow> jsnum \<Rightarrow> jsnum" where
  "haversineDistance M lat1 lon1 lat2 lon2 =
     (let dLat = toRad M (fl_sub M lat2 lat1);
          dLon = toRad M (fl_sub M lon2 lon1);
          a = fl_add M (fl_pow2 M (fl_sin M (fl_div M dLat (Fin 2))))
                (fl_mul M (fl_mul M (fl_cos M (toRad M lat1)) (fl_cos M (toRad M lat2)))
                          (fl_pow2 M (fl_sin M (fl_div M dLon (Fin 2)))));
          c = fl_mul M (Fin 2) (fl_atan2 M (fl_sqrt M a) (fl_sqrt M (fl_sub M (Fin 1) a)))
      in fl_mul M EARTH_RADIUS c)"

section \<open>Dynamically typed values\<close>

text \<open>
  The fields that the handlers test with \<open>typeof\<close>, \<open>Number.isFinite\<close> or for
  truthiness (a location, a threshold) are JSON values; \<open>Undefined\<close> is an absent
  field.  The members of an object are looked up in list order.
\<close>

datatype jsval =
    Undefined
  | Null
  | JBool bool
  | JNum jsnum
  | JStr string
  | JArr "jsval list"
  | JObj "(string \<times> jsval) list"

fun truthy_num :: "jsnum \<Rightarrow> bool" where
  "truthy_num (Fin x) = (x \<noteq> 0)"
| "truthy_num NaN = False"
| "truthy_num _ = True"

fun truthy :: "jsval \<Rightarrow> bool" where
  "truthy Undefined = False"
| "truthy Null = False"
| "truthy (JBool b) = b"
| "truthy (JNum n) = truthy_num n"
| "truthy (JStr s) = (s \<noteq> [])"
| "truthy (JArr _) = True"
| "truthy (JObj _) = True"

fun typeof :: "jsval \<Rightarrow> string" where
  "typeof Undefined = ''undefined''"
| "typeof Null = ''object''"
| "typeof (JBool _) = ''boolean''"
| "typeof (JNum _) = ''number''"
| "typeof (JStr _) = ''string''"
| "typeof (JArr _) = ''object''"
| "typeof (JObj _) = ''object''"

text \<open>Property access \<open>v.k\<close> on a value that is not null or undefined: a member of an
  object, and \<open>undefined\<close> on everything that has no such member.\<close>

fun get_prop :: "jsval \<Rightarrow> string \<Rightarrow> jsval" where
  "get_prop (JObj kvs) k = (case map_of kvs k of Some v \<Rightarrow> v | None \<Rightarrow> Undefined)"
| "get_prop _ k = Undefined"

fun Number_isFinite :: "jsval \<Rightarrow> bool" where
  "Number_isFinite (JNum (Fin _)) = True"
| "Number_isFinite _ = False"

text \<open>The number held by a value of type \<open>number\<close>; the handlers read it only behind a
  \<open>typeof\<close> or \<open>Number.isFinite\<close> guard.\<close>

fun num_of :: "jsval \<Rightarrow> jsnum" where
  "num_of (JNum n) = n"
| "num_of _ = NaN"

text \<open>
  Identifiers and names are strings or absent (\<open>None\<close>).  \<open>missing s\<close> is \<open>!s\<close>:
  an absent field and the empty string are falsy.  \<open>or_empty s\<close> is \<open>s || ""\<close>, which is
  also the string held by a field that is not \<open>missing\<close>.  \<open>num_or n d\<close> is \<open>n || d\<close>
  on an optional number.
\<close>

definition missing :: "string option \<Rightarrow> bool" where
  "missing s = (case s of None \<Rightarrow> True | Some v \<Rightarrow> v = [])"

definition or_empty :: "string option \<Rightarrow> string" where
  "or_empty s = (case s of None \<Rightarrow> [] | Some v \<Rightarrow> v)"

definition num_or :: "jsnum option \<Rightarrow> jsnum \<Rightarrow> jsnum" where
  "num_or n d = (case n of None \<Rightarrow> d | Some v \<Rightarrow> if truthy_num v then v else d)"

section \<open>Documents and the store\<close>

text \<open>
  The three collections of \<^verbatim>\<open>functions/index.js\<close>.  A handler reads the store it is given and
  returns its response together with the writes it issues, in order; \<open>commit\<close> applies them.
  The store refuses some document paths (\<open>refused\<close>): \<open>doc\<close> or \<open>get\<close> then throws, as
  the Firestore SDK does on the path \<open>a/b\<close>, which has an even number of segments.  No
  document lies under a refused path, so a lookup is refused only where \<open>sessions\<close> holds
  nothing.  Queries and writes are taken to succeed.  \<open>Date.now()\<close> is one reading \<open>now\<close>
  per request, in milliseconds.
\<close>

record session_doc =
  s_courseId :: "string option"
  s_startTs :: jsnum
  s_expiresAt :: "jsnum option"
  s_token :: string
  s_createdAt :: jsnum
  s_location :: jsval
  s_thresholdMeters :: jsval

record attendance_record =
  a_studentId :: string
  a_studentName :: string
  a_courseId :: string
  a_sessionId :: string
  a_timestamp :: int
  a_status :: string
  a_verified :: bool
  a_distanceMeters :: "jsnum option"

record student_doc =
  r_studentId :: "string option"
  r_name :: "string option"
  r_courseId :: "string option"

record store =
  sessions :: "string \<rightharpoonup> session_doc"
  attendance :: "attendance_record list"
  students :: "student_doc list"
  refused :: "string set"

datatype write_op =
    SetSession string session_doc
  | AddAttendance attendance_record
  | CommitBatch "attendance_record list"

fun apply_write :: "store \<Rightarrow> write_op \<Rightarrow> store" where
  "apply_write db (SetSession k s) = db\<lparr>sessions := (sessions db)(k \<mapsto> s)\<rparr>"
| "apply_write db (AddAttendance r) = db\<lparr>attendance := attendance db @ [r]\<rparr>"
| "apply_write db (CommitBatch rs) = db\<lparr>attendance := attendance db @ rs\<rparr>"

definition commit :: "store \<Rightarrow> write_op list \<Rightarrow> store" where
  "commit db ws = foldl apply_write db ws"

section \<open>POST /createSession\<close>

datatype create_result =
    Missing_courseId
  | Created string string session_doc

definition createSession ::
  "int \<Rightarrow> string \<Rightarrow> string option \<Rightarrow> jsnum option \<Rightarrow> jsnum option \<Rightarrow> jsval \<Rightarrow> jsval
     \<Rightarrow> create_result \<times> write_op list" where
  "createSession now newId courseId startTs expiresAt location thresholdMeters =
     (if missing courseId then (Missing_courseId, [])
      else
        let session = \<lparr>
              s_courseId = courseId,
              s_startTs = num_or startTs (Fin (of_int now)),
              s_expiresAt = Some (num_or expiresAt
                 (js_add (Fin (of_int now)) (js_mul (js_mul (Fin 15) (Fin 60)) (Fin 1000)))),
              s_token = newId,
              s_createdAt = Fin (of_int now),
              s_location = (if truthy location then location else Null),
              s_thresholdMeters =
                (if Number_isFinite thresholdMeters then thresholdMeters else JNum (Fin 100)) \<rparr>
        in (Created newId newId session, [SetSession newId session]))"

section \<open>POST /checkin\<close>

datatype checkin_result =
    Missing_params
  | Invalid_session
  | Session_expired
  | Already_checked_in
  | Location_required
  | Session_has_no_location
  | Out_of_range jsnum jsnum
  | Checkin_ok bool jsnum attendance_record
  | Server_error

fun http_status :: "checkin_result \<Rightarrow> nat" where
  "http_status Already_checked_in = 200"
| "http_status (Checkin_ok _ _ _) = 200"
| "http_status Server_error = 500"
| "http_status _ = 400"

text \<open>\<^verbatim>\<open>await db.collection("sessions").doc(sessionToken).get()\<close>: the session, none, or
  an exception, which the handler's \<open>catch\<close> turns into \<open>server_error\<close>.\<close>

datatype fetched = Thrown | Absent | Stored session_doc

definition fetch_session :: "store \<Rightarrow> string \<Rightarrow> fetched" where
  "fetch_session db sessionToken =
     (case sessions db sessionToken of
        Some session \<Rightarrow> Stored session
      | None \<Rightarrow> if sessionToken \<in> refused db then Thrown else Absent)"

text \<open>\<^verbatim>\<open>session.expiresAt && Date.now() > session.expiresAt\<close>\<close>

definition expired :: "int \<Rightarrow> session_doc \<Rightarrow> bool" where
  "expired now session =
     (case s_expiresAt session of
        None \<Rightarrow> False
      | Some e \<Rightarrow> truthy_num e \<and> js_gt (Fin (of_int now)) e)"

text \<open>\<^verbatim>\<open>!loc || typeof loc.lat !== "number" || typeof loc.lng !== "number"\<close>, the test
  applied to the client location and then to the session location.\<close>

definition no_coords :: "jsval \<Rightarrow> bool" where
  "no_coords loc =
     (\<not> truthy loc \<or> typeof (get_prop loc ''lat'') \<noteq> ''number''
        \<or> typeof (get_prop loc ''lng'') \<noteq> ''number'')"

definition attempt ::
  "string \<Rightarrow> string option \<Rightarrow> session_doc \<Rightarrow> string \<Rightarrow> int \<Rightarrow> string \<Rightarrow> bool \<Rightarrow> jsnum option
     \<Rightarrow> attendance_record" where
  "attempt studentId studentName session sessionToken now status verified distanceMeters =
     \<lparr> a_studentId = studentId,
       a_studentName = or_empty studentName,
       a_courseId = or_empty (s_courseId session),
       a_sessionId = sessionToken,
       a_timestamp = now,
       a_status = status,
       a_verified = verified,
       a_distanceMeters = distanceMeters \<rparr>"

text \<open>\<^verbatim>\<open>Number.isFinite(session.thresholdMeters) ? session.thresholdMeters : 100\<close>\<close>

definition threshold_of :: "session_doc \<Rightarrow> jsnum" where
  "threshold_of session =
     (if Number_isFinite (s_thresholdMeters session) then num_of (s_thresholdMeters session)
      else Fin 100)"

definition distance_to :: "fpu \<Rightarrow> jsval \<Rightarrow> session_doc \<Rightarrow> jsnum" where
  "distance_to M location session =
     haversineDistance M
       (num_of (get_prop location ''lat'')) (num_of (get_prop location ''lng''))
       (num_of (get_prop (s_location session) ''lat''))
       (num_of (get_prop (s_location session) ''lng''))"

definition existing_records :: "store \<Rightarrow> string \<Rightarrow> string \<Rightarrow> attendance_record list" where
  "existing_records db sessionToken studentId =
     take 1 (filter (\<lambda>r. a_sessionId r = sessionToken \<and> a_studentId r = studentId)
              (attendance db))"

definition checkIn ::
  "fpu \<Rightarrow> store \<Rightarrow> int \<Rightarrow> string option \<Rightarrow> string option \<Rightarrow> string option \<Rightarrow> jsval
     \<Rightarrow> checkin_result \<times> write_op list" where
  "checkIn M db now sessionToken studentId studentName location =
     (if missing sessionToken \<or> missing studentId then (Missing_params, [])
      else
        case fetch_session db (or_empty sessionToken) of
          Thrown \<Rightarrow> (Server_error, [])
        | Absent \<Rightarrow> (Invalid_session, [])
        | Stored session \<Rightarrow>
            if expired now session then (Session_expired, [])
            else if existing_records db (or_empty sessionToken) (or_empty studentId) \<noteq> []
              then (Already_checked_in, [])
            else if no_coords location
              then (Location_required,
                    [AddAttendance (attempt (or_empty studentId) studentName session
                       (or_empty sessionToken) now ''rejected_no_location'' False None)])
            else if no_coords (s_location session)
              then (Session_has_no_location,
                    [AddAttendance (attempt (or_empty studentId) studentName session
                       (or_empty sessionToken) now ''rejected_no_session_location'' False None)])
            else
              let threshold = threshold_of session;
                  distanceMeters = distance_to M location session
              in if js_gt distanceMeters threshold
                 then (Out_of_range distanceMeters threshold,
                       [AddAttendance (attempt (or_empty studentId) studentName session
                          (or_empty sessionToken) now ''rejected_out_of_range'' False
                          (Some distanceMeters))])
                 else
                   let rec = attempt (or_empty studentId) studentName session
                               (or_empty sessionToken) now ''present'' True (Some distanceMeters)
                   in (Checkin_ok True distanceMeters rec, [AddAttendance rec]))"

section \<open>POST /finalizeSession\<close>

datatype finalize_result =
    Missing_sessionId
  | Finalized nat

text \<open>The body of \<^verbatim>\<open>rosterSnap.forEach\<close>: the batch and the counter \<open>absents\<close> are
  carried through the roster.\<close>

definition absent_record :: "string \<Rightarrow> int \<Rightarrow> student_doc \<Rightarrow> attendance_record" where
  "absent_record sessionId now s =
     \<lparr> a_studentId = or_empty (r_studentId s),
       a_studentName = or_empty (r_name s),
       a_courseId = or_empty (r_courseId s),
       a_sessionId = sessionId,
       a_timestamp = now,
       a_status = ''absent'',
       a_verified = False,
       a_distanceMeters = None \<rparr>"

fun roster_forEach ::
  "string \<Rightarrow> int \<Rightarrow> string set \<Rightarrow> student_doc list \<Rightarrow> attendance_record list \<times> nat
     \<Rightarrow> attendance_record list \<times> nat" where
  "roster_forEach sessionId now presentIds [] acc = acc"
| "roster_forEach sessionId now presentIds (s # rest) (batch, absents) =
     (if \<not> missing (r_studentId s) \<and> or_empty (r_studentId s) \<notin> presentIds
      then roster_forEach sessionId now presentIds rest
             (batch @ [absent_record sessionId now s], absents + 1)
      else roster_forEach sessionId now presentIds rest (batch, absents))"

definition presentIds_of :: "store \<Rightarrow> string \<Rightarrow> string set" where
  "presentIds_of db sessionId =
     set (map a_studentId
           (filter (\<lambda>r. a_status r = ''present'')
              (filter (\<lambda>r. a_sessionId r = sessionId) (attendance db))))"

definition finalizeSession ::
  "store \<Rightarrow> int \<Rightarrow> string option \<Rightarrow> finalize_result \<times> write_op list" where
  "finalizeSession db now sessionId =
     (if missing sessionId then (Missing_sessionId, [])
      else
        case roster_forEach (or_empty sessionId) now (presentIds_of db (or_empty sessionId))
               (students db) ([], 0) of
          (batch, absents) \<Rightarrow>
            (Finalized absents, if 0 < absents then [CommitBatch batch] else []))"

section \<open>Binary64 rounding\<close>

text \<open>
  Round to nearest, ties to even, in IEEE 754 binary64: 53 significant bits, the least
  quantum \<open>2^-1074\<close>, and an infinity when the rounded magnitude exceeds the largest
  double.  \<open>binary64_fpu\<close> rounds in this way and takes every library function correctly
  rounded, which the library of a platform need not be.  It is one unit with the facts of
  \<open>ieee_facts\<close>, and the closed examples run on it.
\<close>

definition ulp_exp :: "real \<Rightarrow> int" where
  "ulp_exp x = max (\<lfloor>log 2 \<bar>x\<bar>\<rfloor> - 52) (- 1074)"

definition nearest_even :: "real \<Rightarrow> int" where
  "nearest_even y =
     (let f = \<lfloor>y\<rfloor> in
      if y - of_int f < 1 / 2 then f
      else if 1 / 2 < y - of_int f then f + 1
      else if even f then f else f + 1)"

definition MAX_VALUE :: real where
  "MAX_VALUE = (2 ^ 53 - 1) * 2 ^ 971"

definition round64 :: "real \<Rightarrow> jsnum" where
  "round64 x =
     (if x = 0 then Fin 0
      else
        let q = 2 powi ulp_exp x;
            r = of_int (nearest_even (\<bar>x\<bar> / q)) * q
        in if MAX_VALUE < r then signed_inf (0 < x) else Fin (sgn x * r))"

text \<open>The two-argument arctangent on the reals: the angle of the point \<open>(x, y)\<close> in
  \<open>(-pi, pi]\<close>, and 0 at the origin.\<close>

definition atan2 :: "real \<Rightarrow> real \<Rightarrow> real" where
  "atan2 y x =
     (if 0 < x then arctan (y / x)
      else if x < 0 then (if 0 \<le> y then arctan (y / x) + pi else arctan (y / x) - pi)
      else if 0 < y then pi / 2
      else if y < 0 then - (pi / 2)
      else 0)"

definition binary64_fpu :: fpu where
  "binary64_fpu =
     \<lparr> rnd = round64, m_sin = (\<lambda>x. round64 (sin x)), m_cos = (\<lambda>x. round64 (cos x)),
       m_sqrt = (\<lambda>x. round64 (sqrt x)), m_atan2 = (\<lambda>y x. round64 (atan2 y x)),
       m_pow2 = (\<lambda>x. round64 (x\<^sup>2)) \<rparr>"

section \<open>Example data\<close>

text \<open>In \<open>example_db\<close> the store refuses the path \<open>a/b\<close>.\<close>

definition origin_location :: jsval where
  "origin_location = JObj [(''lat'', JNum (Fin 0)), (''lng'', JNum (Fin 0))]"

definition antipode_location :: jsval where
  "antipode_location = JObj [(''lat'', JNum (Fin 0)), (''lng'', JNum (Fin 180))]"

definition nan_location :: jsval where
  "nan_location = JObj [(''lat'', JNum NaN), (''lng'', JNum NaN)]"

definition origin_session :: session_doc where
  "origin_session =
     \<lparr> s_courseId = Some ''CS101'', s_startTs = Fin 1000, s_expiresAt = Some (Fin 901000),
       s_token = ''sess1'', s_createdAt = Fin 1000, s_location = origin_location,
       s_thresholdMeters = JNum (Fin 100) \<rparr>"

definition open_session :: session_doc where
  "open_session = origin_session \<lparr> s_token := ''sess2'', s_location := Null \<rparr>"

definition exact_session :: session_doc where
  "exact_session = origin_session \<lparr> s_token := ''sess3'', s_thresholdMeters := JNum (Fin 0) \<rparr>"

definition closed_session :: session_doc where
  "closed_session =
     origin_session \<lparr> s_token := ''sess4'', s_thresholdMeters := JNum (Fin (- 1)) \<rparr>"

definition loose_session :: session_doc where
  "loose_session = origin_session \<lparr> s_token := ''sess5'', s_thresholdMeters := JStr ''50'' \<rparr>"

definition example_roster :: "student_doc list" where
  "example_roster =
     [\<lparr> r_studentId = Some ''s1'', r_name = Some ''Asha'', r_courseId = Some ''CS101'' \<rparr>,
      \<lparr> r_studentId = Some ''s2'', r_name = Some ''Bela'', r_courseId = Some ''CS101'' \<rparr>,
      \<lparr> r_studentId = Some ''s3'', r_name = None, r_courseId = Some ''CS101'' \<rparr>]"

definition example_db :: store where
  "example_db =
     \<lparr> sessions = [''sess1'' \<mapsto> origin_session, ''sess2'' \<mapsto> open_session,
                    ''sess3'' \<mapsto> exact_session, ''sess4'' \<mapsto> closed_session,
                    ''sess5'' \<mapsto> loose_session],
       attendance = [],
       students = example_roster,
       refused = {''a/b''} \<rparr>"

definition checked_in_db :: store where
  "checked_in_db =
     commit example_db
       (snd (checkIn binary64_fpu example_db 5000 (Some ''sess1'') (Some ''s1'') None
               origin_location))"

section \<open>The distance function\<close>

lemma rnd_zero: "ieee_facts M \<Longrightarrow> rnd M 0 = Fin 0"
  by (simp add: ieee_facts_def)

lemma rnd_one: "ieee_facts M \<Longrightarrow> rnd M 1 = Fin 1"
  by (simp add: ieee_facts_def)


lemma rnd_small: "ieee_facts M \<Longrightarrow> \<bar>x\<bar> \<le> 1000 \<Longrightarrow> \<exists>r. rnd M x = Fin r \<and> \<bar>r\<bar> \<le> 1000"
  by (simp add: ieee_facts_def)

lemma cos_small: "ieee_facts M \<Longrightarrow> \<exists>c. m_cos M x = Fin c \<and> \<bar>c\<bar> \<le> 1"
  by (simp add: ieee_facts_def)

lemma fl_add_Fin: "fl_add M (Fin x) (Fin y) = rnd M (x + y)"
  by (simp add: fl_add_def)

lemma fl_mul_Fin: "fl_mul M (Fin x) (Fin y) = rnd M (x * y)"
  by (simp add: fl_mul_def)

lemma fl_sub_Fin: "fl_sub M (Fin x) (Fin y) = rnd M (x - y)"
  by (simp add: fl_sub_def fl_add_def)

lemma fl_sub_self: "ieee_facts M \<Longrightarrow> fl_sub M (Fin x) (Fin x) = Fin 0"
  by (simp add: fl_sub_Fin rnd_zero)

lemma toRad_zero: "ieee_facts M \<Longrightarrow> toRad M (Fin 0) = Fin 0"
  by (simp add: toRad_def fl_mul_Fin rnd_zero)

lemma hav_term_zero:
  assumes "ieee_facts M"
  shows "fl_pow2 M (fl_sin M (fl_div M (toRad M (fl_sub M (Fin x) (Fin x))) (Fin 2))) = Fin 0"
  using assms by (simp add: fl_sub_self toRad_zero rnd_zero ieee_facts_def)

lemma toRad_finite:
  assumes M: "ieee_facts M" and lat: "\<bar>lat\<bar> \<le> 90"
  shows "\<exists>r. toRad M (Fin lat) = Fin r"
proof -
  have pi4: "0 \<le> MATH_PI" "MATH_PI \<le> 4" by (simp_all add: MATH_PI_def)
  have "\<bar>lat * MATH_PI\<bar> = \<bar>lat\<bar> * MATH_PI" using pi4 by (simp add: abs_mult)
  also have "\<dots> \<le> 90 * 4" using lat pi4 by (intro mult_mono) simp_all
  finally have "\<bar>lat * MATH_PI\<bar> \<le> 1000" by simp
  then obtain r where r: "rnd M (lat * MATH_PI) = Fin r" "\<bar>r\<bar> \<le> 1000"
    using rnd_small [OF M] by blast
  have "\<bar>r / 180\<bar> \<le> 1000" using r(2) by simp
  then obtain q where "rnd M (r / 180) = Fin q" using rnd_small [OF M] by blast
  then show ?thesis by (simp add: toRad_def fl_mul_Fin r(1))
qed

lemma cos_product_finite:
  assumes M: "ieee_facts M" and lat: "\<bar>lat\<bar> \<le> 90"
  shows "\<exists>p. fl_mul M (fl_cos M (toRad M (Fin lat))) (fl_cos M (toRad M (Fin lat))) = Fin p"
proof -
  obtain r where r: "toRad M (Fin lat) = Fin r" using toRad_finite [OF M lat] by blast
  obtain c where c: "m_cos M r = Fin c" "\<bar>c\<bar> \<le> 1" using cos_small [OF M] by blast
  have "\<bar>c * c\<bar> \<le> 1 * 1" unfolding abs_mult using c(2) by (intro mult_mono) simp_all
  then have "\<bar>c * c\<bar> \<le> 1000" by simp
  then obtain p where "rnd M (c * c) = Fin p" using rnd_small [OF M] by blast
  then show ?thesis by (simp add: r c(1) fl_mul_Fin)
qed

lemma haversineDistance_same:
  assumes M: "ieee_facts M" and lat: "\<bar>lat\<bar> \<le> 90"
  shows "haversineDistance M (Fin lat) (Fin lon) (Fin lat) (Fin lon) = Fin 0"
proof -
  obtain p where p: "fl_mul M (fl_cos M (toRad M (Fin lat))) (fl_cos M (toRad M (Fin lat))) = Fin p"
    using cos_product_finite [OF M lat] by blast
  have a: "fl_add M (fl_pow2 M (fl_sin M (fl_div M (toRad M (fl_sub M (Fin lat) (Fin lat))) (Fin 2))))
             (fl_mul M (fl_mul M (fl_cos M (toRad M (Fin lat))) (fl_cos M (toRad M (Fin lat))))
                (fl_pow2 M (fl_sin M (fl_div M (toRad M (fl_sub M (Fin lon) (Fin lon))) (Fin 2)))))
           = Fin 0"
    by (simp add: hav_term_zero [OF M] p fl_mul_Fin fl_add_Fin rnd_zero [OF M])
  have one: "fl_sub M (Fin 1) (Fin 0) = Fin 1"
    by (simp add: fl_sub_Fin rnd_one [OF M])
  have c: "fl_mul M (Fin 2) (fl_atan2 M (fl_sqrt M (Fin 0)) (fl_sqrt M (Fin 1))) = Fin 0"
    using M by (simp add: ieee_facts_def fl_mul_Fin)
  show ?thesis
    unfolding haversineDistance_def Let_def a one c
    by (simp add: EARTH_RADIUS_def fl_mul_Fin rnd_zero [OF M])
qed










lemma fl_add_NaN_right: "fl_add M a NaN = NaN"
  by (cases a) (simp_all add: fl_add_def)

lemma fl_add_NaN_left: "fl_add M NaN b = NaN"
  by (simp add: fl_add_def)

lemma fl_mul_NaN_right: "fl_mul M a NaN = NaN"
  by (cases a) (simp_all add: fl_mul_def)

lemma fl_mul_NaN_left: "fl_mul M NaN b = NaN"
  by (simp add: fl_mul_def)

lemma haversineDistance_NaN_lat: "haversineDistance M NaN lo a b = NaN"
  by (simp add: haversineDistance_def Let_def fl_sub_def toRad_def fl_add_NaN_right
      fl_add_NaN_left fl_mul_NaN_left fl_mul_NaN_right)

section \<open>The facts hold of binary64 rounding\<close>

lemma round64_zero: "round64 0 = Fin 0"
  by (simp add: round64_def)

lemma round64_minus: "round64 (- x) = js_neg (round64 x)"
  by (simp add: round64_def ulp_exp_def Let_def signed_inf_def sgn_if)

lemma nearest_even_le:
  assumes "y \<le> of_int n"
  shows "nearest_even y \<le> n"
proof -
  have f: "\<lfloor>y\<rfloor> \<le> n" using assms by (simp add: floor_le_iff)
  show ?thesis
  proof (cases "\<lfloor>y\<rfloor> = n")
    case True
    then have "y - of_int \<lfloor>y\<rfloor> \<le> 0" using assms by simp
    then show ?thesis using True by (simp add: nearest_even_def Let_def)
  next
    case False
    then have "\<lfloor>y\<rfloor> + 1 \<le> n" using f by simp
    then show ?thesis by (auto simp add: nearest_even_def Let_def)
  qed
qed

lemma nearest_even_nonneg: "0 \<le> y \<Longrightarrow> 0 \<le> nearest_even y"
  by (auto simp add: nearest_even_def Let_def)

lemma nearest_even_int: "nearest_even (of_int n) = n"
  by (simp add: nearest_even_def)

lemma ulp_exp_small:
  assumes "x \<noteq> 0" "\<bar>x\<bar> \<le> of_nat B" "B < 2 ^ 52"
  shows "ulp_exp x \<le> 0"
proof -
  have "\<bar>x\<bar> < 2 ^ 52" using assms(2,3)
    by (metis (mono_tags, opaque_lifting) le_less_trans of_nat_less_iff of_nat_numeral of_nat_power)
  then have "log 2 \<bar>x\<bar> < 52" using assms(1)
    by (simp add: log_less_iff powr_realpow)
  then have "\<lfloor>log 2 \<bar>x\<bar>\<rfloor> < 52" by (simp add: floor_less_iff)
  then show ?thesis by (simp add: ulp_exp_def)
qed

lemma round64_bounded:
  assumes x: "\<bar>x\<bar> \<le> of_nat B" and B: "B < 2 ^ 52"
  shows "\<exists>r. round64 x = Fin r \<and> \<bar>r\<bar> \<le> of_nat B"
proof (cases "x = 0")
  case True
  then show ?thesis by (simp add: round64_def)
next
  case False
  define e where "e = ulp_exp x"
  define q :: real where "q = 2 powi e"
  have e: "e \<le> 0" unfolding e_def using ulp_exp_small [OF False x B] .
  have qpos: "0 < q" unfolding q_def by simp
  define k where "k = nat (- e)"
  have qk: "q = 1 / 2 ^ k" unfolding q_def k_def using e
    by (simp add: power_int_def field_simps)
  define N :: int where "N = int B * 2 ^ k"
  have "\<bar>x\<bar> / q \<le> of_nat B / q" using x qpos by (simp add: divide_right_mono)
  also have "of_nat B / q = of_int N" unfolding N_def qk by simp
  finally have le: "\<bar>x\<bar> / q \<le> of_int N" .
  define m where "m = nearest_even (\<bar>x\<bar> / q)"
  have m1: "m \<le> N" unfolding m_def using le by (rule nearest_even_le)
  have m0: "0 \<le> m" unfolding m_def using qpos by (intro nearest_even_nonneg) simp
  have r: "of_int m * q \<le> of_nat B"
  proof -
    have "of_int m * q \<le> of_int N * q" using m1 qpos by (simp add: mult_right_mono)
    also have "of_int N * q = of_nat B" unfolding N_def qk by simp
    finally show ?thesis .
  qed
  have r0: "0 \<le> of_int m * q" using m0 qpos by simp
  have "of_nat B < (2::real) ^ 52" using B
    by (metis of_nat_less_iff of_nat_numeral of_nat_power)
  also have "\<dots> \<le> MAX_VALUE" by (simp add: MAX_VALUE_def)
  finally have "\<not> MAX_VALUE < of_int m * q" using r by simp
  then have "round64 x = Fin (sgn x * (of_int m * q))"
    using False by (simp add: round64_def Let_def m_def q_def e_def)
  moreover have "\<bar>sgn x * (of_int m * q)\<bar> \<le> of_nat B"
    using r r0 False by (simp add: abs_mult abs_sgn_eq)
  ultimately show ?thesis by blast
qed

lemma round64_one: "round64 1 = Fin 1"
proof -
  have u: "ulp_exp 1 = - 52" by (simp add: ulp_exp_def)
  have q: "(2::real) powi (- 52) = 1 / 2 ^ 52" by (simp add: power_int_minus field_simps)
  have "\<bar>1::real\<bar> / (1 / 2 ^ 52) = of_int (2 ^ 52)" by simp
  then have n: "nearest_even (\<bar>1::real\<bar> / (1 / 2 ^ 52)) = 2 ^ 52"
    by (simp only: nearest_even_int)
  show ?thesis
    unfolding round64_def Let_def u q n by (simp add: MAX_VALUE_def)
qed

lemma ieee_facts_binary64: "ieee_facts binary64_fpu"
proof -
  have b1000: "\<bar>x\<bar> \<le> 1000 \<longrightarrow> (\<exists>r. round64 x = Fin r \<and> \<bar>r\<bar> \<le> 1000)" for x
    using round64_bounded [of x 1000] by simp
  have c1: "\<exists>c. round64 (cos x) = Fin c \<and> \<bar>c\<bar> \<le> 1" for x
    using round64_bounded [of "cos x" 1] by simp
  show ?thesis
    unfolding ieee_facts_def binary64_fpu_def
    using b1000 c1 by (simp add: round64_zero round64_one round64_minus atan2_def)
qed

text \<open>
  Outside the range of coordinates the product \<open>v * Math.PI\<close> overflows: the radians of
  \<open>1e308\<close> are infinite, their cosine is NaN, and so is the distance from that point to
  itself.
\<close>

lemma toRad_overflow: "toRad binary64_fpu (Fin (10 ^ 308)) = PosInf"
proof -
  define x :: real where "x = 10 ^ 308 * MATH_PI"
  define lo :: real where "lo = 2 ^ 1024"
  define hi :: real where "hi = 2 ^ 1025"
  have lo: "lo \<le> x" and hi: "x < hi" unfolding x_def lo_def hi_def MATH_PI_def by simp_all
  have lo_pos: "0 < lo" unfolding lo_def by simp
  have pos: "0 < x" using lo lo_pos by simp
  have plo: "2 powr 1024 = lo" unfolding lo_def using powr_realpow [of 2 1024] by simp
  have phi: "2 powr 1025 = hi" unfolding hi_def using powr_realpow [of 2 1025] by simp
  have l1: "1024 \<le> log 2 x" using lo pos plo by (simp add: le_log_iff)
  have l2: "log 2 x < 1025" using hi pos phi by (simp add: log_less_iff)
  have fl: "\<lfloor>log 2 \<bar>x\<bar>\<rfloor> = 1024" using l1 l2 pos by (simp add: floor_eq_iff)
  have u: "ulp_exp x = 972" by (simp add: ulp_exp_def fl)
  define q :: real where "q = 2 ^ 972"
  have qpos: "0 < q" unfolding q_def by simp
  have qe: "(2::real) powi 972 = q" unfolding q_def by simp
  have lq: "lo = 2 ^ 52 * q" unfolding lo_def q_def by simp
  have "2 ^ 52 * q \<le> x" using lo lq by simp
  then have "2 ^ 52 \<le> \<bar>x\<bar> / q" using qpos pos by (simp add: pos_le_divide_eq)
  then have "of_int (2 ^ 52) \<le> \<bar>x\<bar> / q" by simp
  then have "2 ^ 52 \<le> \<lfloor>\<bar>x\<bar> / q\<rfloor>" by (simp only: le_floor_iff)
  moreover have "\<lfloor>y\<rfloor> \<le> nearest_even y" for y
    by (simp add: nearest_even_def Let_def)
  ultimately have "(2::int) ^ 52 \<le> nearest_even (\<bar>x\<bar> / q)" by (rule order_trans)
  then have "(of_int (2 ^ 52) :: real) \<le> of_int (nearest_even (\<bar>x\<bar> / q))"
    by (simp only: of_int_le_iff)
  then have "of_int (2 ^ 52) * q \<le> of_int (nearest_even (\<bar>x\<bar> / q)) * q"
    using qpos by (simp only: mult_le_cancel_right_pos)
  moreover have "MAX_VALUE < of_int (2 ^ 52) * q" unfolding q_def by (simp add: MAX_VALUE_def)
  ultimately have big: "MAX_VALUE < of_int (nearest_even (\<bar>x\<bar> / q)) * q" by simp
  have "round64 x = PosInf"
    using pos big unfolding round64_def Let_def u qe by (simp add: signed_inf_def)
  then show ?thesis
    by (simp add: toRad_def fl_mul_Fin binary64_fpu_def x_def signed_inf_def)
qed

lemma haversineDistance_overflow:
  "haversineDistance binary64_fpu (Fin (10 ^ 308)) (Fin 0) (Fin (10 ^ 308)) (Fin 0) = NaN"
  unfolding haversineDistance_def Let_def
  by (simp only: hav_term_zero [OF ieee_facts_binary64] toRad_overflow fl_cos.simps
      fl_mul_NaN_left fl_add_NaN_right fl_sqrt.simps fl_sub_def js_neg.simps
      fl_atan2.simps fl_mul_NaN_right)



section \<open>Check-in\<close>

lemma origin_distance: "haversineDistance binary64_fpu (Fin 0) (Fin 0) (Fin 0) (Fin 0) = Fin 0"
  using haversineDistance_same [OF ieee_facts_binary64, of 0 0] by simp

lemma fetch_stored: "sessions db tok = Some session \<Longrightarrow> fetch_session db tok = Stored session"
  by (simp add: fetch_session_def)

lemma threshold_of_stored:
  "threshold_of session =
     (case s_thresholdMeters session of JNum (Fin x) \<Rightarrow> Fin x | _ \<Rightarrow> Fin 100)"
  by (cases "s_thresholdMeters session" rule: Number_isFinite.cases)
     (simp_all add: threshold_of_def)

lemma threshold_of_finite: "\<exists>x. threshold_of session = Fin x"
  by (cases "s_thresholdMeters session" rule: Number_isFinite.cases) (simp_all add: threshold_of_def)

lemma js_le_not_gt: "js_le a b \<Longrightarrow> \<not> js_gt a b"
  by (cases a; cases b) simp_all

lemma has_coords:
  "get_prop loc ''lat'' = JNum la \<Longrightarrow> get_prop loc ''lng'' = JNum lo \<Longrightarrow> \<not> no_coords loc"
  by (cases loc) (simp_all add: no_coords_def)

lemma no_prior_record:
  "\<forall>r \<in> set (attendance db). \<not> (a_sessionId r = tok \<and> a_studentId r = sid)
     \<Longrightarrow> existing_records db tok sid = []"
  by (simp add: existing_records_def filter_empty_conv)


lemma checkIn_reaches_distance:
  assumes "tok \<noteq> []" "sid \<noteq> []" "sessions db tok = Some session" "\<not> expired now session"
    and "existing_records db tok sid = []" "\<not> no_coords location" "\<not> no_coords (s_location session)"
  shows "checkIn M db now (Some tok) (Some sid) studentName location =
     (if js_gt (distance_to M location session) (threshold_of session)
      then (Out_of_range (distance_to M location session) (threshold_of session),
            [AddAttendance (attempt sid studentName session tok now ''rejected_out_of_range'' False
               (Some (distance_to M location session)))])
      else (Checkin_ok True (distance_to M location session)
              (attempt sid studentName session tok now ''present'' True
                 (Some (distance_to M location session))),
            [AddAttendance (attempt sid studentName session tok now ''present'' True
               (Some (distance_to M location session)))]))"
  using assms by (simp add: checkIn_def missing_def or_empty_def Let_def fetch_stored)

text \<open>
  Claim C1.  A check-in that reaches the distance evaluation (both parameters given, the
  session exists and is not expired, no record yet for the student and session, client
  location and session geofence with numeric \<open>lat\<close> and \<open>lng\<close>) is classified by the
  haversine distance \<open>d\<close>, as the floating-point unit computes it, against the session's
  threshold \<open>t\<close>: the stored \<open>thresholdMeters\<close> when that is a finite number, and 100
  otherwise.  With \<open>d <= t\<close> it adds one record with status "present", verified and
  carrying \<open>d\<close>, and answers success; with \<open>d > t\<close> it adds one record with status
  "rejected_out_of_range", not verified and carrying \<open>d\<close>, and answers out_of_range with \<open>d\<close>
  and \<open>t\<close>.  A distance equal to the threshold is accepted.
\<close>

theorem checkIn_distance_classification:
  assumes params: "tok \<noteq> []" "sid \<noteq> []"
    and sess: "sessions db tok = Some session" "\<not> expired now session"
    and fresh: "\<forall>r \<in> set (attendance db). \<not> (a_sessionId r = tok \<and> a_studentId r = sid)"
    and client: "get_prop location ''lat'' = JNum clat" "get_prop location ''lng'' = JNum clng"
    and fence: "get_prop (s_location session) ''lat'' = JNum slat"
               "get_prop (s_location session) ''lng'' = JNum slng"
    and d: "d = haversineDistance M clat clng slat slng"
    and t: "t = (case s_thresholdMeters session of JNum (Fin x) \<Rightarrow> Fin x | _ \<Rightarrow> Fin 100)"
  shows "(js_le d t \<longrightarrow>
            checkIn M db now (Some tok) (Some sid) studentName location =
              (Checkin_ok True d
                 \<lparr> a_studentId = sid, a_studentName = or_empty studentName,
                   a_courseId = or_empty (s_courseId session), a_sessionId = tok,
                   a_timestamp = now, a_status = ''present'', a_verified = True,
                   a_distanceMeters = Some d \<rparr>,
               [AddAttendance
                 \<lparr> a_studentId = sid, a_studentName = or_empty studentName,
                   a_courseId = or_empty (s_courseId session), a_sessionId = tok,
                   a_timestamp = now, a_status = ''present'', a_verified = True,
                   a_distanceMeters = Some d \<rparr>]))
       \<and> (js_gt d t \<longrightarrow>
            checkIn M db now (Some tok) (Some sid) studentName location =
              (Out_of_range d t,
               [AddAttendance
                 \<lparr> a_studentId = sid, a_studentName = or_empty studentName,
                   a_courseId = or_empty (s_courseId session), a_sessionId = tok,
                   a_timestamp = now, a_status = ''rejected_out_of_range'', a_verified = False,
                   a_distanceMeters = Some d \<rparr>]))
       \<and> (d = t \<longrightarrow>
            checkIn M db now (Some tok) (Some sid) studentName location =
              (Checkin_ok True d
                 \<lparr> a_studentId = sid, a_studentName = or_empty studentName,
                   a_courseId = or_empty (s_courseId session), a_sessionId = tok,
                   a_timestamp = now, a_status = ''present'', a_verified = True,
                   a_distanceMeters = Some d \<rparr>,
               [AddAttendance
                 \<lparr> a_studentId = sid, a_studentName = or_empty studentName,
                   a_courseId = or_empty (s_courseId session), a_sessionId = tok,
                   a_timestamp = now, a_status = ''present'', a_verified = True,
                   a_distanceMeters = Some d \<rparr>]))"
proof -
  have dist: "distance_to M location session = d"
    by (simp add: distance_to_def client fence d)
  have thr: "threshold_of session = t"
    by (simp only: threshold_of_stored t)
  have run: "checkIn M db now (Some tok) (Some sid) studentName location =
     (if js_gt d t
      then (Out_of_range d t,
            [AddAttendance (attempt sid studentName session tok now ''rejected_out_of_range'' False (Some d))])
      else (Checkin_ok True d (attempt sid studentName session tok now ''present'' True (Some d)),
            [AddAttendance (attempt sid studentName session tok now ''present'' True (Some d))]))"
    using checkIn_reaches_distance [OF params sess no_prior_record [OF fresh]
        has_coords [OF client] has_coords [OF fence], of M studentName]
    by (simp only: dist thr)
  obtain x where x: "t = Fin x" using threshold_of_finite [of session] thr by auto
  have eq: "d = t \<longrightarrow> \<not> js_gt d t" by (simp add: x)
  show ?thesis
    using js_le_not_gt [of d t] eq by (simp add: run attempt_def)
qed

theorem checkIn_distance_classification_witness:
  "checkIn binary64_fpu example_db 5000 (Some ''sess1'') (Some ''s1'') None origin_location =
     (Checkin_ok True (Fin 0)
        \<lparr> a_studentId = ''s1'', a_studentName = [], a_courseId = ''CS101'',
          a_sessionId = ''sess1'', a_timestamp = 5000, a_status = ''present'',
          a_verified = True, a_distanceMeters = Some (Fin 0) \<rparr>,
      [AddAttendance
        \<lparr> a_studentId = ''s1'', a_studentName = [], a_courseId = ''CS101'',
          a_sessionId = ''sess1'', a_timestamp = 5000, a_status = ''present'',
          a_verified = True, a_distanceMeters = Some (Fin 0) \<rparr>])
   \<and> checkIn binary64_fpu example_db 5000 (Some ''sess4'') (Some ''s1'') None origin_location =
     (Out_of_range (Fin 0) (Fin (- 1)),
      [AddAttendance
        \<lparr> a_studentId = ''s1'', a_studentName = [], a_courseId = ''CS101'',
          a_sessionId = ''sess4'', a_timestamp = 5000, a_status = ''rejected_out_of_range'',
          a_verified = False, a_distanceMeters = Some (Fin 0) \<rparr>])
   \<and> checkIn binary64_fpu example_db 5000 (Some ''sess3'') (Some ''s1'') None origin_location =
     (Checkin_ok True (Fin 0)
        \<lparr> a_studentId = ''s1'', a_studentName = [], a_courseId = ''CS101'',
          a_sessionId = ''sess3'', a_timestamp = 5000, a_status = ''present'',
          a_verified = True, a_distanceMeters = Some (Fin 0) \<rparr>,
      [AddAttendance
        \<lparr> a_studentId = ''s1'', a_studentName = [], a_courseId = ''CS101'',
          a_sessionId = ''sess3'', a_timestamp = 5000, a_status = ''present'',
          a_verified = True, a_distanceMeters = Some (Fin 0) \<rparr>])
   \<and> checkIn binary64_fpu example_db 5000 (Some ''sess5'') (Some ''s1'') None origin_location =
     (Checkin_ok True (Fin 0)
        \<lparr> a_studentId = ''s1'', a_studentName = [], a_courseId = ''CS101'',
          a_sessionId = ''sess5'', a_timestamp = 5000, a_status = ''present'',
          a_verified = True, a_distanceMeters = Some (Fin 0) \<rparr>,
      [AddAttendance
        \<lparr> a_studentId = ''s1'', a_studentName = [], a_courseId = ''CS101'',
          a_sessionId = ''sess5'', a_timestamp = 5000, a_status = ''present'',
          a_verified = True, a_distanceMeters = Some (Fin 0) \<rparr>])"
proof -
  have ne: "''sess1'' \<noteq> []" "''sess3'' \<noteq> []" "''sess4'' \<noteq> []" "''sess5'' \<noteq> []"
    "''s1'' \<noteq> []" by simp_all
  have live: "\<not> expired 5000 origin_session" "\<not> expired 5000 exact_session"
    "\<not> expired 5000 closed_session" "\<not> expired 5000 loose_session"
    by (simp_all add: expired_def origin_session_def exact_session_def closed_session_def
        loose_session_def)
  have fresh: "\<forall>r \<in> set (attendance example_db). \<not> (a_sessionId r = tok \<and> a_studentId r = ''s1'')"
    for tok by (simp add: example_db_def)
  have s1: "sessions example_db ''sess1'' = Some origin_session"
    and s3: "sessions example_db ''sess3'' = Some exact_session"
    and s4: "sessions example_db ''sess4'' = Some closed_session"
    and s5: "sessions example_db ''sess5'' = Some loose_session"
    by (simp_all add: example_db_def)
  have at: "get_prop origin_location ''lat'' = JNum (Fin 0)"
           "get_prop origin_location ''lng'' = JNum (Fin 0)"
    by (simp_all add: origin_location_def)
  have fence1: "get_prop (s_location origin_session) ''lat'' = JNum (Fin 0)"
               "get_prop (s_location origin_session) ''lng'' = JNum (Fin 0)"
    and fence3: "get_prop (s_location exact_session) ''lat'' = JNum (Fin 0)"
                "get_prop (s_location exact_session) ''lng'' = JNum (Fin 0)"
    and fence4: "get_prop (s_location closed_session) ''lat'' = JNum (Fin 0)"
                "get_prop (s_location closed_session) ''lng'' = JNum (Fin 0)"
    and fence5: "get_prop (s_location loose_session) ''lat'' = JNum (Fin 0)"
                "get_prop (s_location loose_session) ''lng'' = JNum (Fin 0)"
    by (simp_all add: origin_session_def exact_session_def closed_session_def
        loose_session_def origin_location_def)
  have t1: "Fin 100 = (case s_thresholdMeters origin_session of
                         JNum (Fin x) \<Rightarrow> Fin x | _ \<Rightarrow> Fin 100)"
    and t3: "Fin 0 = (case s_thresholdMeters exact_session of
                         JNum (Fin x) \<Rightarrow> Fin x | _ \<Rightarrow> Fin 100)"
    and t4: "Fin (- 1) = (case s_thresholdMeters closed_session of
                         JNum (Fin x) \<Rightarrow> Fin x | _ \<Rightarrow> Fin 100)"
    and t5: "Fin 100 = (case s_thresholdMeters loose_session of
                         JNum (Fin x) \<Rightarrow> Fin x | _ \<Rightarrow> Fin 100)"
    by (simp_all add: origin_session_def exact_session_def closed_session_def loose_session_def)
  note d0 = origin_distance [symmetric]
  have le: "js_le (Fin 0) (Fin 100)" and gt: "js_gt (Fin 0) (Fin (- 1))" by simp_all
  from checkIn_distance_classification [OF ne(1) ne(5) s1 live(1) fresh at fence1 d0 t1, of None] le
  have in_range: "checkIn binary64_fpu example_db 5000 (Some ''sess1'') (Some ''s1'') None origin_location =
     (Checkin_ok True (Fin 0)
        \<lparr> a_studentId = ''s1'', a_studentName = [], a_courseId = ''CS101'',
          a_sessionId = ''sess1'', a_timestamp = 5000, a_status = ''present'',
          a_verified = True, a_distanceMeters = Some (Fin 0) \<rparr>,
      [AddAttendance
        \<lparr> a_studentId = ''s1'', a_studentName = [], a_courseId = ''CS101'',
          a_sessionId = ''sess1'', a_timestamp = 5000, a_status = ''present'',
          a_verified = True, a_distanceMeters = Some (Fin 0) \<rparr>])"
    by (simp add: or_empty_def origin_session_def)
  from checkIn_distance_classification [OF ne(3) ne(5) s4 live(3) fresh at fence4 d0 t4, of None] gt
  have out_range: "checkIn binary64_fpu example_db 5000 (Some ''sess4'') (Some ''s1'') None origin_location =
     (Out_of_range (Fin 0) (Fin (- 1)),
      [AddAttendance
        \<lparr> a_studentId = ''s1'', a_studentName = [], a_courseId = ''CS101'',
          a_sessionId = ''sess4'', a_timestamp = 5000, a_status = ''rejected_out_of_range'',
          a_verified = False, a_distanceMeters = Some (Fin 0) \<rparr>])"
    by (simp add: or_empty_def origin_session_def closed_session_def)
  from checkIn_distance_classification [OF ne(2) ne(5) s3 live(2) fresh at fence3 d0 t3, of None]
  have boundary: "checkIn binary64_fpu example_db 5000 (Some ''sess3'') (Some ''s1'') None origin_location =
     (Checkin_ok True (Fin 0)
        \<lparr> a_studentId = ''s1'', a_studentName = [], a_courseId = ''CS101'',
          a_sessionId = ''sess3'', a_timestamp = 5000, a_status = ''present'',
          a_verified = True, a_distanceMeters = Some (Fin 0) \<rparr>,
      [AddAttendance
        \<lparr> a_studentId = ''s1'', a_studentName = [], a_courseId = ''CS101'',
          a_sessionId = ''sess3'', a_timestamp = 5000, a_status = ''present'',
          a_verified = True, a_distanceMeters = Some (Fin 0) \<rparr>])"
    by (simp add: or_empty_def origin_session_def exact_session_def)
  from checkIn_distance_classification [OF ne(4) ne(5) s5 live(4) fresh at fence5 d0 t5, of None] le
  have default: "checkIn binary64_fpu example_db 5000 (Some ''sess5'') (Some ''s1'') None origin_location =
     (Checkin_ok True (Fin 0)
        \<lparr> a_studentId = ''s1'', a_studentName = [], a_courseId = ''CS101'',
          a_sessionId = ''sess5'', a_timestamp = 5000, a_status = ''present'',
          a_verified = True, a_distanceMeters = Some (Fin 0) \<rparr>,
      [AddAttendance
        \<lparr> a_studentId = ''s1'', a_studentName = [], a_courseId = ''CS101'',
          a_sessionId = ''sess5'', a_timestamp = 5000, a_status = ''present'',
          a_verified = True, a_distanceMeters = Some (Fin 0) \<rparr>])"
    by (simp add: or_empty_def origin_session_def loose_session_def)
  from in_range out_range boundary default show ?thesis by simp
qed


lemma checked_in_db_eq:
  "checked_in_db = example_db \<lparr> attendance :=
     [\<lparr> a_studentId = ''s1'', a_studentName = [], a_courseId = ''CS101'', a_sessionId = ''sess1'',
        a_timestamp = 5000, a_status = ''present'', a_verified = True,
        a_distanceMeters = Some (Fin 0) \<rparr>] \<rparr>"
  by (simp add: checked_in_db_def checkIn_def fetch_session_def example_db_def missing_def
      or_empty_def expired_def origin_session_def origin_location_def existing_records_def
      no_coords_def threshold_of_def distance_to_def origin_distance attempt_def commit_def
      Let_def)

lemma existing_records_iff:
  "existing_records db tok sid \<noteq> [] \<longleftrightarrow>
     (\<exists>r \<in> set (attendance db). a_sessionId r = tok \<and> a_studentId r = sid)"
  by (auto simp add: existing_records_def filter_empty_conv)

lemma checkIn_no_write_iff:
  "snd (checkIn M db now sessionToken studentId studentName location) = [] \<longleftrightarrow>
     fst (checkIn M db now sessionToken studentId studentName location)
        \<in> {Missing_params, Invalid_session, Session_expired, Already_checked_in, Server_error}"
  by (simp add: checkIn_def Let_def split: fetched.splits)

lemma checkIn_early_iff:
  "snd (checkIn M db now sessionToken studentId studentName location) = [] \<longleftrightarrow>
     (missing sessionToken \<or> missing studentId
      \<or> sessions db (or_empty sessionToken) = None
      \<or> (\<exists>session. sessions db (or_empty sessionToken) = Some session \<and> expired now session)
      \<or> (\<exists>r \<in> set (attendance db).
            a_sessionId r = or_empty sessionToken \<and> a_studentId r = or_empty studentId))"
  unfolding existing_records_iff [symmetric]
  by (auto simp add: checkIn_def fetch_session_def Let_def split: option.splits)

lemma checkIn_one_write:
  "snd (checkIn M db now sessionToken studentId studentName location) \<noteq> [] \<Longrightarrow>
     \<exists>rec. snd (checkIn M db now sessionToken studentId studentName location) = [AddAttendance rec]
        \<and> a_status rec \<in> {''rejected_no_location'', ''rejected_no_session_location'',
                           ''rejected_out_of_range'', ''present''}"
  by (auto simp add: checkIn_def Let_def attempt_def split: fetched.splits if_splits)

lemma checkIn_server_error_iff:
  "fst (checkIn M db now sessionToken studentId studentName location) = Server_error \<longleftrightarrow>
     (\<not> missing sessionToken \<and> \<not> missing studentId
      \<and> sessions db (or_empty sessionToken) = None \<and> or_empty sessionToken \<in> refused db)"
  by (auto simp add: checkIn_def fetch_session_def Let_def split: option.splits if_splits)




text \<open>
  Claim C5.  On a session whose geofence is null, a check-in that passes the parameter,
  session, expiry and duplicate steps and carries a location (numeric \<open>lat\<close> and \<open>lng\<close>,
  of any value) answers session_has_no_location and adds one record with status
  "rejected_no_session_location", not verified.
\<close>

theorem checkIn_session_without_geofence:
  assumes params: "tok \<noteq> []" "sid \<noteq> []"
    and sess: "sessions db tok = Some session" "\<not> expired now session"
    and fresh: "\<forall>r \<in> set (attendance db). \<not> (a_sessionId r = tok \<and> a_studentId r = sid)"
    and nofence: "s_location session = Null"
    and client: "get_prop location ''lat'' = JNum clat" "get_prop location ''lng'' = JNum clng"
  shows "checkIn M db now (Some tok) (Some sid) studentName location =
           (Session_has_no_location,
            [AddAttendance
               \<lparr> a_studentId = sid, a_studentName = or_empty studentName,
                 a_courseId = or_empty (s_courseId session), a_sessionId = tok,
                 a_timestamp = now, a_status = ''rejected_no_session_location'',
                 a_verified = False, a_distanceMeters = None \<rparr>])"
  using params sess no_prior_record [OF fresh] has_coords [OF client] nofence
  by (simp add: checkIn_def fetch_session_def missing_def or_empty_def attempt_def no_coords_def)

theorem checkIn_session_without_geofence_witness:
  "checkIn binary64_fpu example_db 5000 (Some ''sess2'') (Some ''s2'') (Some ''Bela'') antipode_location =
     (Session_has_no_location,
      [AddAttendance
         \<lparr> a_studentId = ''s2'', a_studentName = ''Bela'', a_courseId = ''CS101'',
           a_sessionId = ''sess2'', a_timestamp = 5000,
           a_status = ''rejected_no_session_location'', a_verified = False,
           a_distanceMeters = None \<rparr>])"
proof -
  have ne: "''sess2'' \<noteq> []" "''s2'' \<noteq> []" by simp_all
  have sess: "sessions example_db ''sess2'' = Some open_session" "\<not> expired 5000 open_session"
    by (simp_all add: example_db_def expired_def open_session_def origin_session_def)
  have fresh: "\<forall>r \<in> set (attendance example_db).
      \<not> (a_sessionId r = ''sess2'' \<and> a_studentId r = ''s2'')"
    by (simp add: example_db_def)
  have nofence: "s_location open_session = Null" by (simp add: open_session_def)
  have client: "get_prop antipode_location ''lat'' = JNum (Fin 0)"
    "get_prop antipode_location ''lng'' = JNum (Fin 180)"
    by (simp_all add: antipode_location_def)
  from checkIn_session_without_geofence [OF ne sess fresh nofence client, of binary64_fpu "Some ''Bela''"]
  show ?thesis by (simp add: or_empty_def open_session_def origin_session_def)
qed

text \<open>
  Claim C6, as stated, fails: the store refuses the document path of the token \<open>a/b\<close>, the
  lookup throws, and the handler answers server_error without a write.  That call is none
  of the early failures the claim lists.
\<close>

theorem checkIn_zero_or_one_write_counterexample:
  "checkIn binary64_fpu example_db 5000 (Some ''a/b'') (Some ''s1'') None origin_location
     = (Server_error, [])
   \<and> Server_error \<noteq> Missing_params \<and> Server_error \<noteq> Invalid_session
   \<and> Server_error \<noteq> Session_expired \<and> Server_error \<noteq> Already_checked_in"
  by (simp add: checkIn_def fetch_session_def example_db_def missing_def or_empty_def)

text \<open>
  Claim C6, amended.  Every check-in issues no write or exactly one, the addition of one
  attendance record whose status is one of the four outcomes.  It issues none exactly when
  a parameter is missing, no session is stored under the token, the session has expired,
  or a record for the student and the session exists already; these are exactly the calls
  that answer missing_params, invalid_session, session_expired, already_checked_in or
  server_error, the last when the store refuses the lookup of the token.  The duplicate
  query and the write are taken to succeed.
\<close>

theorem checkIn_zero_or_one_write:
  "(snd (checkIn M db now sessionToken studentId studentName location) = []
      \<or> (\<exists>rec. snd (checkIn M db now sessionToken studentId studentName location)
                  = [AddAttendance rec]
            \<and> a_status rec \<in> {''rejected_no_location'', ''rejected_no_session_location'',
                               ''rejected_out_of_range'', ''present''}))
   \<and> (snd (checkIn M db now sessionToken studentId studentName location) = [] \<longleftrightarrow>
        (missing sessionToken \<or> missing studentId
         \<or> sessions db (or_empty sessionToken) = None
         \<or> (\<exists>session. sessions db (or_empty sessionToken) = Some session
               \<and> expired now session)
         \<or> (\<exists>r \<in> set (attendance db).
               a_sessionId r = or_empty sessionToken \<and> a_studentId r = or_empty studentId)))
   \<and> (snd (checkIn M db now sessionToken studentId studentName location) = [] \<longleftrightarrow>
        fst (checkIn M db now sessionToken studentId studentName location)
          \<in> {Missing_params, Invalid_session, Session_expired, Already_checked_in,
              Server_error})
   \<and> (fst (checkIn M db now sessionToken studentId studentName location) = Server_error \<longleftrightarrow>
        (\<not> missing sessionToken \<and> \<not> missing studentId
         \<and> sessions db (or_empty sessionToken) = None
         \<and> or_empty sessionToken \<in> refused db))"
  using checkIn_one_write [of M db now sessionToken studentId studentName location]
    checkIn_early_iff [of M db now sessionToken studentId studentName location]
    checkIn_no_write_iff [of M db now sessionToken studentId studentName location]
    checkIn_server_error_iff [of M db now sessionToken studentId studentName location]
  by blast

theorem checkIn_zero_or_one_write_witness:
  "snd (checkIn binary64_fpu example_db 5000 (Some ''nope'') (Some ''s1'') None origin_location) = []
   \<and> fst (checkIn binary64_fpu example_db 5000 (Some ''nope'') (Some ''s1'') None origin_location)
       \<in> {Missing_params, Invalid_session, Session_expired, Already_checked_in, Server_error}
   \<and> fst (checkIn binary64_fpu example_db 5000 (Some ''nope'') (Some ''s1'') None origin_location)
       \<noteq> Server_error
   \<and> length (snd (checkIn binary64_fpu example_db 5000 (Some ''sess2'') (Some ''s1'') None
                     origin_location)) = 1"
proof -
  note inst = checkIn_zero_or_one_write [of binary64_fpu example_db 5000 _ "Some ''s1''" None
      origin_location]
  have gone: "sessions example_db (or_empty (Some ''nope'')) = None"
    by (simp add: example_db_def or_empty_def)
  have accepted: "or_empty (Some ''nope'') \<notin> refused example_db"
    by (simp add: example_db_def or_empty_def)
  have zero: "snd (checkIn binary64_fpu example_db 5000 (Some ''nope'') (Some ''s1'') None
                     origin_location) = []"
    using inst [of "Some ''nope''"] gone by blast
  have early: "fst (checkIn binary64_fpu example_db 5000 (Some ''nope'') (Some ''s1'') None
                      origin_location)
       \<in> {Missing_params, Invalid_session, Session_expired, Already_checked_in, Server_error}"
    using inst [of "Some ''nope''"] zero by blast
  have noerr: "fst (checkIn binary64_fpu example_db 5000 (Some ''nope'') (Some ''s1'') None
                      origin_location) \<noteq> Server_error"
    using inst [of "Some ''nope''"] accepted by blast
  have live: "\<not> (missing (Some ''sess2'') \<or> missing (Some ''s1'')
         \<or> sessions example_db (or_empty (Some ''sess2'')) = None
         \<or> (\<exists>session. sessions example_db (or_empty (Some ''sess2'')) = Some session
               \<and> expired 5000 session)
         \<or> (\<exists>r \<in> set (attendance example_db).
               a_sessionId r = or_empty (Some ''sess2'') \<and> a_studentId r = or_empty (Some ''s1'')))"
    by (simp add: example_db_def or_empty_def missing_def expired_def open_session_def
        origin_session_def)
  have one: "length (snd (checkIn binary64_fpu example_db 5000 (Some ''sess2'') (Some ''s1'') None
                            origin_location)) = 1"
    using inst [of "Some ''sess2''"] live by auto
  from zero early noerr one show ?thesis by blast
qed

text \<open>
  Claim C7, as stated, fails: no session exists for the token \<open>a/b\<close>, but the store refuses
  that document path, the lookup throws, and the handler answers server_error, not
  invalid_session.
\<close>

theorem checkIn_invalid_or_expired_counterexample:
  "sessions example_db ''a/b'' = None
   \<and> fst (checkIn binary64_fpu example_db 5000 (Some ''a/b'') (Some ''s1'') None origin_location)
       = Server_error
   \<and> fst (checkIn binary64_fpu example_db 5000 (Some ''a/b'') (Some ''s1'') None origin_location)
       \<noteq> Invalid_session"
  by (simp add: checkIn_def fetch_session_def example_db_def missing_def or_empty_def)

text \<open>
  Claim C7, amended.  With both parameters given, a check-in answers invalid_session when
  the store accepts the lookup of the token and holds no session for it (server_error when
  the store refuses the lookup), and session_expired when the session has an expiry time
  (a number other than 0, which counts as unset) that the current time exceeds.  None of
  these calls writes a record: the store after the call is the store before it.
\<close>

theorem checkIn_invalid_or_expired:
  assumes params: "tok \<noteq> []" "sid \<noteq> []"
  shows "(sessions db tok = None \<and> tok \<notin> refused db \<longrightarrow>
            checkIn M db now (Some tok) (Some sid) studentName location = (Invalid_session, []))
       \<and> (sessions db tok = None \<and> tok \<in> refused db \<longrightarrow>
            checkIn M db now (Some tok) (Some sid) studentName location = (Server_error, []))
       \<and> (sessions db tok = Some session \<and> s_expiresAt session = Some e \<and> e \<noteq> Fin 0
            \<and> js_gt (Fin (of_int now)) e \<longrightarrow>
            checkIn M db now (Some tok) (Some sid) studentName location = (Session_expired, []))
       \<and> (sessions db tok = None \<or> (sessions db tok = Some session \<and> expired now session) \<longrightarrow>
            commit db (snd (checkIn M db now (Some tok) (Some sid) studentName location)) = db)"
proof -
  have "truthy_num e" if "e \<noteq> Fin 0" "js_gt (Fin (of_int now)) e"
    using that by (cases e) simp_all
  then show ?thesis
    using params
    by (auto simp add: checkIn_def fetch_session_def missing_def or_empty_def expired_def
        commit_def)
qed

theorem checkIn_invalid_or_expired_witness:
  "checkIn binary64_fpu example_db 5000 (Some ''nope'') (Some ''s1'') None origin_location
     = (Invalid_session, [])
   \<and> checkIn binary64_fpu example_db 902000 (Some ''sess1'') (Some ''s1'') None origin_location
       = (Session_expired, [])
   \<and> commit example_db
       (snd (checkIn binary64_fpu example_db 902000 (Some ''sess1'') (Some ''s1'') None
               origin_location))
       = example_db"
proof -
  have ne: "''nope'' \<noteq> []" "''sess1'' \<noteq> []" "''s1'' \<noteq> []" by simp_all
  have gone: "sessions example_db ''nope'' = None \<and> ''nope'' \<notin> refused example_db"
    by (simp add: example_db_def)
  have late: "sessions example_db ''sess1'' = Some origin_session
      \<and> s_expiresAt origin_session = Some (Fin 901000) \<and> Fin 901000 \<noteq> Fin 0
      \<and> js_gt (Fin (of_int 902000)) (Fin 901000)"
    by (simp add: example_db_def origin_session_def)
  have ex: "expired 902000 origin_session" by (simp add: expired_def origin_session_def)
  from checkIn_invalid_or_expired [OF ne(1) ne(3), where db = example_db and now = 5000
      and studentName = None and location = origin_location and M = binary64_fpu] gone
  have a: "checkIn binary64_fpu example_db 5000 (Some ''nope'') (Some ''s1'') None origin_location
             = (Invalid_session, [])" by blast
  from checkIn_invalid_or_expired [OF ne(2) ne(3), where db = example_db
      and session = origin_session and e = "Fin 901000" and now = 902000
      and studentName = None and location = origin_location and M = binary64_fpu] late ex
  have b: "checkIn binary64_fpu example_db 902000 (Some ''sess1'') (Some ''s1'') None origin_location
       = (Session_expired, [])
    \<and> commit example_db
       (snd (checkIn binary64_fpu example_db 902000 (Some ''sess1'') (Some ''s1'') None
               origin_location))
       = example_db" by blast
  from a b show ?thesis by blast
qed

text \<open>
  Claim C10.  A location whose \<open>lat\<close> and \<open>lng\<close> are NaN passes the \<open>typeof\<close> test.  On a
  session with a numeric geofence the distance is then NaN, \<open>NaN > threshold\<close> is false, and
  the check-in is accepted: one record with status "present", verified, with distance NaN.
\<close>

theorem checkIn_admits_NaN:
  assumes params: "tok \<noteq> []" "sid \<noteq> []"
    and sess: "sessions db tok = Some session" "\<not> expired now session"
    and fresh: "\<forall>r \<in> set (attendance db). \<not> (a_sessionId r = tok \<and> a_studentId r = sid)"
    and fence: "get_prop (s_location session) ''lat'' = JNum slat"
               "get_prop (s_location session) ''lng'' = JNum slng"
    and loc: "location = JObj [(''lat'', JNum NaN), (''lng'', JNum NaN)]"
  shows "typeof (get_prop location ''lat'') = ''number''
       \<and> typeof (get_prop location ''lng'') = ''number''
       \<and> haversineDistance M NaN NaN slat slng = NaN
       \<and> \<not> js_gt (haversineDistance M NaN NaN slat slng) (threshold_of session)
       \<and> checkIn M db now (Some tok) (Some sid) studentName location =
           (Checkin_ok True NaN
              \<lparr> a_studentId = sid, a_studentName = or_empty studentName,
                a_courseId = or_empty (s_courseId session), a_sessionId = tok,
                a_timestamp = now, a_status = ''present'', a_verified = True,
                a_distanceMeters = Some NaN \<rparr>,
            [AddAttendance
              \<lparr> a_studentId = sid, a_studentName = or_empty studentName,
                a_courseId = or_empty (s_courseId session), a_sessionId = tok,
                a_timestamp = now, a_status = ''present'', a_verified = True,
                a_distanceMeters = Some NaN \<rparr>])"
proof -
  have client: "get_prop location ''lat'' = JNum NaN" "get_prop location ''lng'' = JNum NaN"
    by (simp_all add: loc)
  have d: "distance_to M location session = NaN"
    by (simp add: distance_to_def client fence haversineDistance_NaN_lat)
  have run: "checkIn M db now (Some tok) (Some sid) studentName location =
           (Checkin_ok True NaN (attempt sid studentName session tok now ''present'' True (Some NaN)),
            [AddAttendance (attempt sid studentName session tok now ''present'' True (Some NaN))])"
    using checkIn_reaches_distance [OF params sess no_prior_record [OF fresh]
        has_coords [OF client] has_coords [OF fence], of M studentName]
    by (simp add: d)
  show ?thesis
    by (simp add: client haversineDistance_NaN_lat run attempt_def)
qed

theorem checkIn_admits_NaN_witness:
  "checkIn binary64_fpu example_db 5000 (Some ''sess1'') (Some ''s3'') None nan_location =
     (Checkin_ok True NaN
        \<lparr> a_studentId = ''s3'', a_studentName = [], a_courseId = ''CS101'',
          a_sessionId = ''sess1'', a_timestamp = 5000, a_status = ''present'',
          a_verified = True, a_distanceMeters = Some NaN \<rparr>,
      [AddAttendance
        \<lparr> a_studentId = ''s3'', a_studentName = [], a_courseId = ''CS101'',
          a_sessionId = ''sess1'', a_timestamp = 5000, a_status = ''present'',
          a_verified = True, a_distanceMeters = Some NaN \<rparr>])"
proof -
  have ne: "''sess1'' \<noteq> []" "''s3'' \<noteq> []" by simp_all
  have sess: "sessions example_db ''sess1'' = Some origin_session" "\<not> expired 5000 origin_session"
    by (simp_all add: example_db_def expired_def origin_session_def)
  have fresh: "\<forall>r \<in> set (attendance example_db).
      \<not> (a_sessionId r = ''sess1'' \<and> a_studentId r = ''s3'')"
    by (simp add: example_db_def)
  have fence: "get_prop (s_location origin_session) ''lat'' = JNum (Fin 0)"
              "get_prop (s_location origin_session) ''lng'' = JNum (Fin 0)"
    by (simp_all add: origin_session_def origin_location_def)
  from checkIn_admits_NaN [OF ne sess fresh fence nan_location_def, of binary64_fpu None]
  show ?thesis by (simp add: or_empty_def origin_session_def)
qed

section \<open>Session creation\<close>

text \<open>
  Claim C8.  A createSession call that supplies only a non-empty courseId stores a session
  that starts now, expires 900000 ms after now, has threshold 100 and a null geofence.
  Whatever else is supplied, a threshold that is not a finite number is stored as 100.
\<close>

theorem createSession_defaults:
  assumes course: "c \<noteq> []"
  shows "createSession now newId (Some c) None None Undefined Undefined =
           (Created newId newId
              \<lparr> s_courseId = Some c, s_startTs = Fin (of_int now),
                s_expiresAt = Some (Fin (of_int now + 900000)), s_token = newId,
                s_createdAt = Fin (of_int now), s_location = Null,
                s_thresholdMeters = JNum (Fin 100) \<rparr>,
            [SetSession newId
              \<lparr> s_courseId = Some c, s_startTs = Fin (of_int now),
                s_expiresAt = Some (Fin (of_int now + 900000)), s_token = newId,
                s_createdAt = Fin (of_int now), s_location = Null,
                s_thresholdMeters = JNum (Fin 100) \<rparr>])
       \<and> ((\<forall>x. thresholdMeters \<noteq> JNum (Fin x)) \<longrightarrow>
            (\<exists>session. createSession now newId (Some c) startTs expiresAt location thresholdMeters
                          = (Created newId newId session, [SetSession newId session])
                \<and> s_thresholdMeters session = JNum (Fin 100)))"
proof -
  have nf: "\<not> Number_isFinite thresholdMeters" if "\<forall>x. thresholdMeters \<noteq> JNum (Fin x)"
    using that by (cases thresholdMeters rule: Number_isFinite.cases) simp_all
  show ?thesis
    using course nf by (simp add: createSession_def missing_def num_or_def Let_def)
qed

theorem createSession_defaults_witness:
  "createSession 1000 ''sess9'' (Some ''CS101'') None None Undefined Undefined =
     (Created ''sess9'' ''sess9''
        \<lparr> s_courseId = Some ''CS101'', s_startTs = Fin 1000, s_expiresAt = Some (Fin 901000),
          s_token = ''sess9'', s_createdAt = Fin 1000, s_location = Null,
          s_thresholdMeters = JNum (Fin 100) \<rparr>,
      [SetSession ''sess9''
        \<lparr> s_courseId = Some ''CS101'', s_startTs = Fin 1000, s_expiresAt = Some (Fin 901000),
          s_token = ''sess9'', s_createdAt = Fin 1000, s_location = Null,
          s_thresholdMeters = JNum (Fin 100) \<rparr>])
   \<and> (\<exists>session. createSession 1000 ''sess9'' (Some ''CS101'') None None origin_location (JStr ''50'')
                  = (Created ''sess9'' ''sess9'' session, [SetSession ''sess9'' session])
        \<and> s_thresholdMeters session = JNum (Fin 100))"
proof -
  have c: "''CS101'' \<noteq> []" by simp
  have t: "\<forall>x. JStr ''50'' \<noteq> JNum (Fin x)" by simp
  from createSession_defaults [OF c, where now = 1000 and newId = "''sess9''"
      and thresholdMeters = "JStr ''50''" and startTs = None and expiresAt = None
      and location = origin_location] t
  show ?thesis by simp
qed

section \<open>Finalization\<close>

lemma roster_forEach_eq:
  "roster_forEach sid now P R (batch, n) =
     (batch @ map (absent_record sid now)
                (filter (\<lambda>s. \<not> missing (r_studentId s) \<and> or_empty (r_studentId s) \<notin> P) R),
      n + length (filter (\<lambda>s. \<not> missing (r_studentId s) \<and> or_empty (r_studentId s) \<notin> P) R))"
  by (induction R arbitrary: batch n) simp_all

lemma presentIds_of_eq:
  "presentIds_of db sid =
     a_studentId ` {r \<in> set (attendance db). a_sessionId r = sid \<and> a_status r = ''present''}"
  by (auto simp add: presentIds_of_def)

lemma count_outside:
  assumes "distinct (map f R)" "P \<subseteq> f ` set R"
  shows "length (filter (\<lambda>s. f s \<notin> P) R) = length R - card P \<and> card P \<le> length R"
proof -
  have fin: "finite P" using assms(2) by (rule finite_subset) simp
  have d: "distinct (filter (\<lambda>x. x \<notin> P) (map f R))" using assms(1) by simp
  have "length (filter (\<lambda>s. f s \<notin> P) R) = length (filter (\<lambda>x. x \<notin> P) (map f R))"
    by (simp add: filter_map comp_def)
  also have "\<dots> = card (set (filter (\<lambda>x. x \<notin> P) (map f R)))"
    by (rule distinct_card [OF d, symmetric])
  also have "set (filter (\<lambda>x. x \<notin> P) (map f R)) = f ` set R - P" by auto
  also have "card (f ` set R - P) = card (f ` set R) - card P"
    using fin assms(2) by (simp add: card_Diff_subset)
  also have "card (f ` set R) = length R"
    using assms(1) distinct_card [of "map f R"] by simp
  finally have a: "length (filter (\<lambda>s. f s \<notin> P) R) = length R - card P" .
  have "card P \<le> card (f ` set R)" using assms(2) by (simp add: card_mono)
  also have "card (f ` set R) = length R"
    using assms(1) distinct_card [of "map f R"] by simp
  finally show ?thesis using a by simp
qed

text \<open>
  Claim C2.  Let the roster \<open>R\<close> hold one entry per student, each with an id, and let \<open>P\<close>,
  the ids of the session's records with status "present", lie within the roster.  Then
  finalizeSession answers \<open>|R| - |P|\<close> absences, and its batch holds, for exactly the roster
  students outside \<open>P\<close>, one record with status "absent", not verified, with the id, name
  and course of the roster entry.  With no absence it issues no write.
\<close>

theorem finalizeSession_complement:
  assumes given: "sid \<noteq> []"
    and ids: "\<forall>s \<in> set (students db). \<not> missing (r_studentId s)"
    and uniq: "distinct (map (\<lambda>s. or_empty (r_studentId s)) (students db))"
    and P: "P = a_studentId `
                  {r \<in> set (attendance db). a_sessionId r = sid \<and> a_status r = ''present''}"
    and sub: "P \<subseteq> (\<lambda>s. or_empty (r_studentId s)) ` set (students db)"
  shows "finalizeSession db now (Some sid) =
           (Finalized (length (students db) - card P),
            if length (students db) - card P = 0 then []
            else [CommitBatch
                    (map (\<lambda>s. \<lparr> a_studentId = or_empty (r_studentId s),
                                a_studentName = or_empty (r_name s),
                                a_courseId = or_empty (r_courseId s),
                                a_sessionId = sid, a_timestamp = now, a_status = ''absent'',
                                a_verified = False, a_distanceMeters = None \<rparr>)
                       (filter (\<lambda>s. or_empty (r_studentId s) \<notin> P) (students db)))])
       \<and> card P \<le> length (students db)"
proof -
  have keep: "filter (\<lambda>s. \<not> missing (r_studentId s) \<and> or_empty (r_studentId s) \<notin> P) (students db)
      = filter (\<lambda>s. or_empty (r_studentId s) \<notin> P) (students db)"
    using ids by (auto intro: filter_cong)
  have cnt: "length (filter (\<lambda>s. or_empty (r_studentId s) \<notin> P) (students db))
      = length (students db) - card P" and le: "card P \<le> length (students db)"
    using count_outside [OF uniq sub] by simp_all
  have loop: "roster_forEach sid now (presentIds_of db sid) (students db) ([], 0) =
      (map (absent_record sid now) (filter (\<lambda>s. or_empty (r_studentId s) \<notin> P) (students db)),
       length (students db) - card P)"
    by (simp add: roster_forEach_eq presentIds_of_eq P [symmetric] keep cnt)
  have ar: "absent_record sid now = (\<lambda>s. \<lparr> a_studentId = or_empty (r_studentId s),
                                a_studentName = or_empty (r_name s),
                                a_courseId = or_empty (r_courseId s),
                                a_sessionId = sid, a_timestamp = now, a_status = ''absent'',
                                a_verified = False, a_distanceMeters = None \<rparr>)"
    by (rule ext) (simp add: absent_record_def)
  show ?thesis
    using given le by (simp add: finalizeSession_def missing_def or_empty_def loop [simplified or_empty_def] ar)
qed


theorem finalizeSession_complement_witness:
  "finalizeSession checked_in_db 910000 (Some ''sess1'') =
     (Finalized 2,
      [CommitBatch
         [\<lparr> a_studentId = ''s2'', a_studentName = ''Bela'', a_courseId = ''CS101'',
            a_sessionId = ''sess1'', a_timestamp = 910000, a_status = ''absent'',
            a_verified = False, a_distanceMeters = None \<rparr>,
          \<lparr> a_studentId = ''s3'', a_studentName = [], a_courseId = ''CS101'',
            a_sessionId = ''sess1'', a_timestamp = 910000, a_status = ''absent'',
            a_verified = False, a_distanceMeters = None \<rparr>]])
   \<and> finalizeSession (example_db \<lparr> students := [] \<rparr>) 910000 (Some ''sess1'') = (Finalized 0, [])"
proof -
  have given: "''sess1'' \<noteq> []" by simp
  have ids: "\<forall>s \<in> set (students checked_in_db). \<not> missing (r_studentId s)"
    by (simp add: checked_in_db_eq example_db_def example_roster_def missing_def)
  have uniq: "distinct (map (\<lambda>s. or_empty (r_studentId s)) (students checked_in_db))"
    by (simp add: checked_in_db_eq example_db_def example_roster_def or_empty_def)
  have pv: "presentIds_of checked_in_db ''sess1'' = {''s1''}"
    by (simp add: presentIds_of_def checked_in_db_eq)
  have P: "{''s1''} = a_studentId `
      {r \<in> set (attendance checked_in_db). a_sessionId r = ''sess1'' \<and> a_status r = ''present''}"
    by (rule trans [OF pv [symmetric] presentIds_of_eq])
  have sub: "{''s1''} \<subseteq> (\<lambda>s. or_empty (r_studentId s)) ` set (students checked_in_db)"
    by (simp add: checked_in_db_eq example_db_def example_roster_def or_empty_def)
  from finalizeSession_complement [OF given ids uniq P sub, of 910000]
  have a: "finalizeSession checked_in_db 910000 (Some ''sess1'') =
     (Finalized 2,
      [CommitBatch
         [\<lparr> a_studentId = ''s2'', a_studentName = ''Bela'', a_courseId = ''CS101'',
            a_sessionId = ''sess1'', a_timestamp = 910000, a_status = ''absent'',
            a_verified = False, a_distanceMeters = None \<rparr>,
          \<lparr> a_studentId = ''s3'', a_studentName = [], a_courseId = ''CS101'',
            a_sessionId = ''sess1'', a_timestamp = 910000, a_status = ''absent'',
            a_verified = False, a_distanceMeters = None \<rparr>]])"
    by (simp add: checked_in_db_eq example_db_def example_roster_def or_empty_def)
  have ids0: "\<forall>s \<in> set (students (example_db \<lparr> students := [] \<rparr>)). \<not> missing (r_studentId s)"
    by simp
  have uniq0: "distinct (map (\<lambda>s. or_empty (r_studentId s)) (students (example_db \<lparr> students := [] \<rparr>)))"
    by simp
  have pv0: "presentIds_of (example_db \<lparr> students := [] \<rparr>) ''sess1'' = {}"
    by (simp add: presentIds_of_def example_db_def)
  have P0: "{} = a_studentId `
      {r \<in> set (attendance (example_db \<lparr> students := [] \<rparr>)).
         a_sessionId r = ''sess1'' \<and> a_status r = ''present''}"
    by (rule trans [OF pv0 [symmetric] presentIds_of_eq])
  have sub0: "{} \<subseteq> (\<lambda>s. or_empty (r_studentId s)) ` set (students (example_db \<lparr> students := [] \<rparr>))"
    by simp
  from finalizeSession_complement [OF given ids0 uniq0 P0 sub0, of 910000]
  have b: "finalizeSession (example_db \<lparr> students := [] \<rparr>) 910000 (Some ''sess1'') = (Finalized 0, [])"
    by simp
  from a b show ?thesis by simp
qed

end
